theory Spec2Isabelle
  imports Main
begin

section \<open>Configuration values\<close>

text \<open>
  The configuration store and the records built from it are JSON-like trees: scalars and
  nested mappings of string keys. A mapping is an association list in insertion order, as
  the keys of a JavaScript object are; a JavaScript object never holds a key twice, which
  is the invariant \<open>wellFormed\<close> below. Numbers are modelled as integers (ports).
\<close>

datatype jv = JNull | JBool bool | JNum int | JStr string | JObj "(string \<times> jv) list"

type_synonym fields = "(string \<times> jv) list"

fun wellFormed :: "jv \<Rightarrow> bool" where
  "wellFormed (JObj obj) = (distinct (map fst obj) \<and> (\<forall>v \<in> snd ` set obj. wellFormed v))"
| "wellFormed _ = True"

text \<open>JavaScript truthiness of a configuration value, as \<open>&&\<close> and \<open>if\<close> test it.\<close>

fun truthy :: "jv \<Rightarrow> bool" where
  "truthy JNull = False"
| "truthy (JBool b) = b"
| "truthy (JNum n) = (n \<noteq> 0)"
| "truthy (JStr s) = (s \<noteq> [])"
| "truthy (JObj _) = True"

section \<open>The configuration store\<close>

text \<open>
  Modelled from the spec: the configuration store (the \<open>config\<close> package, not under
  src/) is "a read-only hierarchical key-value store supporting has-key-path and
  get-value-at-key-path queries over dotted namespaces". A dotted path such as
  \<open>mfuses.config\<close> is the list of its segments. \<open>getImpl\<close> walks the path through
  nested mappings and is undefined (\<open>None\<close>) as soon as a segment is missing or a value
  on the way is not a mapping; \<open>has\<close> holds when the value is defined.
\<close>

fun getImpl :: "fields \<Rightarrow> string list \<Rightarrow> jv option" where
  "getImpl object [] = None"
| "getImpl object [name] = map_of object name"
| "getImpl object (name # elems) =
     (case map_of object name of
        Some (JObj val) \<Rightarrow> getImpl val elems
      | _ \<Rightarrow> None)"

definition has :: "fields \<Rightarrow> string list \<Rightarrow> bool" where
  "has store property = (getImpl store property \<noteq> None)"

section \<open>Deep merge\<close>

text \<open>
  Decimal rendering of an index, for the keys under which JavaScript enumerates the
  characters of a string.
\<close>

fun showNat :: "nat \<Rightarrow> string" where
  "showNat n =
     (if n < 10 then [char_of (48 + n)]
      else showNat (n div 10) @ [char_of (48 + n mod 10)])"

declare showNat.simps [simp del]

text \<open>
  \<open>baseAssignValue\<close> sets a key of a mapping: an existing key keeps its position, a new
  key is appended.
\<close>

fun baseAssignValue :: "(string \<times> 'a) list \<Rightarrow> string \<Rightarrow> 'a \<Rightarrow> (string \<times> 'a) list" where
  "baseAssignValue [] key v = [(key, v)]"
| "baseAssignValue ((k, x) # object) key v =
     (if k = key then (k, v) # object else (k, x) # baseAssignValue object key v)"

text \<open>
  Modelled from the spec: the deep merge (\<open>lodash.mergeWith\<close> called without a
  customizer; lodash is not under src/) is the "recursive merge of nested mappings where
  leaf values from the override source take precedence over the default source"; "nested
  mappings are merged recursively rather than replaced wholesale". \<open>baseMerge object
  source\<close> visits the keys of the source in order. A source value that is a mapping is
  merged into the target's value under that key when that value is a mapping too, and
  into a fresh empty mapping otherwise; any other source value replaces the target's.
\<close>

fun baseMerge :: "fields \<Rightarrow> fields \<Rightarrow> fields" where
  "baseMerge object [] = object"
| "baseMerge object ((key, JObj srcValue) # source) =
     baseMerge
       (baseAssignValue object key
          (JObj (baseMerge (case map_of object key of Some (JObj objValue) \<Rightarrow> objValue | _ \<Rightarrow> [])
                   srcValue)))
       source"
| "baseMerge object ((key, srcValue) # source) =
     baseMerge (baseAssignValue object key srcValue) source"

text \<open>
  \<open>mergeWith object source\<close> merges one source into the target record and returns the
  target. A source that is no mapping has no keys to contribute, except a string, whose
  characters are enumerated under their indices.
\<close>

fun mergeWith :: "fields \<Rightarrow> jv \<Rightarrow> fields" where
  "mergeWith object (JObj source) = baseMerge object source"
| "mergeWith object (JStr s) =
     baseMerge object (map (\<lambda>i. (showNat i, JStr [s ! i])) [0 ..< length s])"
| "mergeWith object _ = object"

text \<open>
  An override specifies a key path when it holds a value at the path, or a value that is
  no mapping at a prefix of it (which replaces the whole default subtree below).
\<close>

fun specifies :: "fields \<Rightarrow> string list \<Rightarrow> bool" where
  "specifies source [] = False"
| "specifies source (name # elems) =
     (case map_of source name of
        None \<Rightarrow> False
      | Some (JObj val) \<Rightarrow> elems = [] \<or> specifies val elems
      | Some _ \<Rightarrow> True)"

section \<open>Module initialisation\<close>

type_synonym error = string

datatype log_entry =
    LogTrace string
  | LogWarn string
  | LogError error string

text \<open>The default service configuration, web API settings and logger settings.\<close>

definition defaultServiceConfig :: fields where
  "defaultServiceConfig =
     [(''namespace'', JStr ''MFuSes-default''),
      (''transporter'', JStr ''TCP''),
      (''registry'', JObj [(''strategy'', JStr ''Random'')])]"

definition defaultWebApiSettings :: fields where
  "defaultWebApiSettings = [(''port'', JNum 8080), (''path'', JStr ''/srvapi'')]"

definition defaultLoggerSettings :: fields where
  "defaultLoggerSettings = []"

text \<open>
  \<open>if (config.has(p)) { x = lodash.mergeWith(x, config.get(p)) }\<close>: the value at the
  path, when defined, is merged over the current record.
\<close>

definition mergeFrom :: "fields \<Rightarrow> string list \<Rightarrow> fields \<Rightarrow> fields" where
  "mergeFrom store property object =
     (case getImpl store property of
        Some app \<Rightarrow> mergeWith object app
      | None \<Rightarrow> object)"

text \<open>
  The outcome of the alias chain: the merged service configuration, the logger settings
  and the name of the context logger that the broker's logger factory closes over, and the
  warnings logged on the way.
\<close>

record resolved =
  serviceConfig :: fields
  loggerSettings :: fields
  serviceLogger :: string
  warned :: "log_entry list"

text \<open>The body shared by the three branches of the chain, for the root the branch names.\<close>

definition useRoot :: "string \<Rightarrow> fields \<Rightarrow> log_entry list \<Rightarrow> resolved" where
  "useRoot root store ws =
     \<lparr> serviceConfig = mergeFrom store [root, ''config''] defaultServiceConfig,
       loggerSettings = mergeFrom store [root, ''logger''] defaultLoggerSettings,
       serviceLogger = root,
       warned = ws \<rparr>"

definition usMoleculerWarning :: string where
  "usMoleculerWarning =
     ''The '' @ [CHR 0x27] @ ''usMoleculer'' @ [CHR 0x27] @
     '' configuration entry is deprecated, use '' @ [CHR 0x27] @ ''mfuses'' @ [CHR 0x27] @
     '' instead''"

definition molServiceWarning :: string where
  "molServiceWarning =
     ''The '' @ [CHR 0x27] @ ''mol-service'' @ [CHR 0x27] @
     '' configuration entry is deprecated, use '' @ [CHR 0x27] @ ''mfuses'' @ [CHR 0x27] @
     '' instead''"

definition resolveConfig :: "fields \<Rightarrow> resolved" where
  "resolveConfig store =
     (if has store [''mfuses''] then useRoot ''mfuses'' store []
      else if has store [''usMoleculer'']
        then useRoot ''usMoleculer'' store [LogWarn usMoleculerWarning]
      else useRoot ''mol-service'' store [LogWarn molServiceWarning])"

text \<open>\<open>config.has(p) && config.get(p)\<close>\<close>

definition enabled :: "fields \<Rightarrow> string list \<Rightarrow> bool" where
  "enabled store property =
     (case getImpl store property of Some v \<Rightarrow> truthy v | None \<Rightarrow> False)"

definition webApiEnabled :: "fields \<Rightarrow> bool" where
  "webApiEnabled store =
     (enabled store [''usMoleculer'', ''enableWebApi''] \<or>
      enabled store [''mol-service'', ''enableWebApi''])"

definition resolveWebApiSettings :: "fields \<Rightarrow> fields" where
  "resolveWebApiSettings store =
     (if has store [''usMoleculer'', ''webApiSettings'']
        then mergeFrom store [''usMoleculer'', ''webApiSettings''] defaultWebApiSettings
      else if has store [''mol-service'', ''webApiSettings'']
        then mergeFrom store [''mol-service'', ''webApiSettings''] defaultWebApiSettings
      else defaultWebApiSettings)"

text \<open>
  The broker handle: the options it was constructed with, the logger factory's two
  captured values, whether it was started, and the settings of every service created on it.
\<close>

record broker =
  brokerOptions :: fields
  brokerLoggerName :: string
  brokerLoggerSettings :: fields
  brokerStarted :: bool
  brokerServices :: "fields list"

text \<open>What \<open>require('moleculer-web')\<close> does: it returns the module or throws.\<close>

datatype require_result = Loaded | LoadFailed error

text \<open>The body of the \<open>try\<close> block: an exception of \<open>require\<close> leaves it as \<open>Inl\<close>.\<close>

definition createApiService :: "require_result \<Rightarrow> fields \<Rightarrow> broker \<Rightarrow> error + broker" where
  "createApiService req settings b =
     (case req of
        LoadFailed e \<Rightarrow> Inl e
      | Loaded \<Rightarrow> Inr (b\<lparr>brokerServices := brokerServices b @ [settings]\<rparr>))"

definition webModuleFailure :: string where
  "webModuleFailure =
     ''Failed to start moleculer web module, ensure it is added to your main project as a dependency''"

record module_state =
  mfusesBroker :: broker
  logged :: "log_entry list"

definition loadModule :: "fields \<Rightarrow> require_result \<Rightarrow> module_state" where
  "loadModule store req =
     (let r = resolveConfig store;
          lg = warned r @ [LogTrace ''Configuring moleculer service''];
          b = \<lparr> brokerOptions = serviceConfig r,
                brokerLoggerName = serviceLogger r,
                brokerLoggerSettings = loggerSettings r,
                brokerStarted = True,
                brokerServices = [] \<rparr>
      in if webApiEnabled store then
           (case createApiService req (resolveWebApiSettings store) b of
              Inr b' \<Rightarrow> \<lparr> mfusesBroker = b', logged = lg \<rparr>
            | Inl e \<Rightarrow> \<lparr> mfusesBroker = b, logged = lg @ [LogError e webModuleFailure] \<rparr>)
         else \<lparr> mfusesBroker = b, logged = lg \<rparr>)"

section \<open>The heap of the caller\<close>

text \<open>
  \<open>call\<close> copies objects and forwards references, so its arguments live in a heap.
  A value is a primitive or the address of an object; an object is the list of its own
  enumerable properties; the heap is the list of the objects allocated so far, an address
  being an index into it, so that a fresh object gets the address \<open>length h\<close>.
\<close>

type_synonym addr = nat

datatype val = VUndefined | VNull | VBool bool | VNum int | VStr string | VRef addr

type_synonym obj = "(string \<times> val) list"

type_synonym heap = "obj list"


text \<open>\<open>o.key\<close> and \<open>o.key = x\<close> on the heap (a read through a non-object is undefined).\<close>

definition getProp :: "heap \<Rightarrow> val \<Rightarrow> string \<Rightarrow> val" where
  "getProp h v key =
     (case v of
        VRef a \<Rightarrow>
          (if a < length h
           then (case map_of (h ! a) key of Some x \<Rightarrow> x | None \<Rightarrow> VUndefined)
           else VUndefined)
      | _ \<Rightarrow> VUndefined)"

definition setProp :: "heap \<Rightarrow> val \<Rightarrow> string \<Rightarrow> val \<Rightarrow> heap" where
  "setProp h v key x =
     (case v of
        VRef a \<Rightarrow> (if a < length h then h[a := baseAssignValue (h ! a) key x] else h)
      | _ \<Rightarrow> h)"

text \<open>
  The own enumerable properties \<open>Object.assign\<close> reads from a source: those of an
  object, the indexed characters of a string, none of any other primitive.
\<close>

definition ownProperties :: "heap \<Rightarrow> val \<Rightarrow> obj" where
  "ownProperties h source =
     (case source of
        VRef a \<Rightarrow> (if a < length h then h ! a else [])
      | VStr s \<Rightarrow> map (\<lambda>i. (showNat i, VStr [s ! i])) [0 ..< length s]
      | _ \<Rightarrow> [])"

text \<open>\<open>Object.assign({}, source)\<close>: a fresh object holding the source's properties.\<close>

definition objectAssign :: "heap \<Rightarrow> val \<Rightarrow> val \<times> heap" where
  "objectAssign h source = (VRef (length h), h @ [ownProperties h source])"

section \<open>The call facade\<close>

text \<open>
  The state of the promise a broker call returns, once it has settled (or \<open>Pending\<close>
  when it never does).
\<close>

datatype promise = Pending | Fulfilled val | Rejected error

text \<open>
  What \<open>call\<close> does: the arguments it hands to the broker's call primitive, the heap
  after its allocations, how it completes, and the entries it logs (the one of the
  \<open>catch\<close> handler included, which runs when the promise rejects). \<open>callResult\<close>
  is \<open>Inr\<close> of the promise \<open>call\<close> returns, or \<open>Inl e\<close> when the primitive
  throws \<open>e\<close> synchronously: there is no \<open>try\<close> around it, so \<open>call\<close> throws
  \<open>e\<close> in turn, before the handler is attached, and returns nothing.
\<close>

record call_outcome =
  passedParams :: val
  passedOptions :: val
  heapAfter :: heap
  callResult :: "error + promise"
  callLog :: "log_entry list"

text \<open>
  The stream test (\<open>is-stream\<close>) and the broker's primitives (\<open>moleculer\<close>) are not
  under src/: they are parameters. \<open>brokerCall\<close> returns a promise or throws
  (\<open>Inl\<close>); \<open>brokerEmit\<close> and \<open>brokerBroadcast\<close> return a value or throw.
\<close>

definition call ::
  "(heap \<Rightarrow> val \<Rightarrow> bool) \<Rightarrow>
   (broker \<Rightarrow> string \<Rightarrow> val \<Rightarrow> val \<Rightarrow> heap \<Rightarrow> error + promise) \<Rightarrow>
   module_state \<Rightarrow> string \<Rightarrow> val \<Rightarrow> val \<Rightarrow> heap \<Rightarrow> call_outcome" where
  "call isStream brokerCall m actionName callParams callOptions h =
     (let (finalCallParams, h1) =
            (if isStream h callParams then (callParams, h) else objectAssign h callParams);
          (finalCallOptions, h2) = objectAssign h1 callOptions;
          result = brokerCall (mfusesBroker m) actionName finalCallParams finalCallOptions h2
      in \<lparr> passedParams = finalCallParams,
           passedOptions = finalCallOptions,
           heapAfter = h2,
           callResult = result,
           callLog =
             LogTrace ''call'' #
             (case result of
                Inr (Rejected e) \<Rightarrow> [LogError e (''Error calling '' @ actionName)]
              | _ \<Rightarrow> []) \<rparr>)"

definition emit ::
  "(broker \<Rightarrow> string \<Rightarrow> val \<Rightarrow> val \<Rightarrow> error + val) \<Rightarrow>
   module_state \<Rightarrow> string \<Rightarrow> val \<Rightarrow> val \<Rightarrow> (error + unit) \<times> log_entry list" where
  "emit brokerEmit m eventName payload groups =
     (case brokerEmit (mfusesBroker m) eventName payload groups of
        Inl e \<Rightarrow> (Inl e, [LogTrace ''emit''])
      | Inr _ \<Rightarrow> (Inr (), [LogTrace ''emit'']))"

definition broadcast ::
  "(broker \<Rightarrow> string \<Rightarrow> val \<Rightarrow> val \<Rightarrow> error + val) \<Rightarrow>
   module_state \<Rightarrow> string \<Rightarrow> val \<Rightarrow> val \<Rightarrow> (error + unit) \<times> log_entry list" where
  "broadcast brokerBroadcast m eventName payload groups =
     (case brokerBroadcast (mfusesBroker m) eventName payload groups of
        Inl e \<Rightarrow> (Inl e, [LogTrace ''broadcast''])
      | Inr _ \<Rightarrow> (Inr (), [LogTrace ''broadcast'']))"

text \<open>
  Two collaborators to run \<open>call\<close> with: a stream test that finds no stream, and a
  call primitive that throws before it returns a promise.
\<close>

definition noStream :: "heap \<Rightarrow> val \<Rightarrow> bool" where
  "noStream h v = False"

definition throwingCall :: "broker \<Rightarrow> string \<Rightarrow> val \<Rightarrow> val \<Rightarrow> heap \<Rightarrow> error + promise" where
  "throwingCall b actionName params opts h = Inl ''boom''"

section \<open>Properties of the deep merge\<close>

lemma map_of_baseAssignValue:
  "map_of (baseAssignValue object key v) k = (if k = key then Some v else map_of object k)"
  by (induction object key v rule: baseAssignValue.induct) auto

lemma baseAssignValue_same:
  "map_of object key = Some v \<Longrightarrow> baseAssignValue object key v = object"
  by (induction object key v rule: baseAssignValue.induct) (auto split: if_splits)

lemma map_of_baseMerge_other:
  "k \<notin> fst ` set source \<Longrightarrow> map_of (baseMerge object source) k = map_of object k"
  by (induction object source rule: baseMerge.induct) (auto simp: map_of_baseAssignValue)

lemma map_of_baseMerge_object:
  "distinct (map fst source) \<Longrightarrow> map_of source k = Some (JObj s) \<Longrightarrow>
   map_of (baseMerge object source) k =
     Some (JObj (baseMerge (case map_of object k of Some (JObj t) \<Rightarrow> t | _ \<Rightarrow> []) s))"
  by (induction object source rule: baseMerge.induct)
     (auto simp: map_of_baseAssignValue map_of_baseMerge_other split: if_splits)

lemma wellFormed_lookup:
  "wellFormed (JObj obj) \<Longrightarrow> map_of obj k = Some v \<Longrightarrow> wellFormed v"
  by (auto dest!: map_of_SomeD simp: image_iff)

text \<open>
  A path the source does not specify reads the same in the merged record: the walk either
  leaves the source at a key it lacks, or descends into a mapping both sides hold.
\<close>

lemma baseMerge_preserves:
  "wellFormed (JObj source) \<Longrightarrow> getImpl object path = Some v \<Longrightarrow>
   \<not> specifies source path \<Longrightarrow> getImpl (baseMerge object source) path = Some v"
proof (induction object path arbitrary: source rule: getImpl.induct)
  case (1 object)
  then show ?case by simp
next
  case (2 object name)
  then show ?case
    by (auto simp: map_of_baseMerge_other map_of_eq_None_iff split: option.splits jv.splits)
next
  case (3 object name e es)
  from "3.prems"(2) obtain t where t: "map_of object name = Some (JObj t)"
    and gt: "getImpl t (e # es) = Some v"
    by (auto split: option.splits jv.splits)
  show ?case
  proof (cases "map_of source name")
    case None
    then have "map_of (baseMerge object source) name = map_of object name"
      by (simp add: map_of_baseMerge_other map_of_eq_None_iff)
    with t gt show ?thesis by simp
  next
    case (Some sv)
    with "3.prems"(3) obtain s where sv: "sv = JObj s" and ns: "\<not> specifies s (e # es)"
      by (cases sv) auto
    from "3.prems"(1) have d: "distinct (map fst source)" by simp
    from "3.prems"(1) Some sv have ws: "wellFormed (JObj s)"
      using wellFormed_lookup by blast
    have m: "map_of (baseMerge object source) name = Some (JObj (baseMerge t s))"
      using map_of_baseMerge_object [OF d, of name s object] Some sv t by simp
    have "getImpl (baseMerge t s) (e # es) = Some v"
      using "3.IH" [OF t refl ws gt ns] .
    with m show ?thesis by simp
  qed
qed

text \<open>
  A source all of whose entries the target already holds, and whose nested mappings are
  fixed by merging over themselves, leaves the target as it is.
\<close>

lemma baseMerge_subsumed:
  "(\<And>k v. (k, v) \<in> set source \<Longrightarrow> map_of object k = Some v) \<Longrightarrow>
   (\<And>k s. (k, JObj s) \<in> set source \<Longrightarrow> baseMerge s s = s) \<Longrightarrow>
   baseMerge object source = object"
proof (induction source)
  case Nil
  then show ?case by simp
next
  case (Cons a source)
  obtain k v where a: "a = (k, v)" by (cases a)
  have l: "map_of object k = Some v" using Cons.prems(1) a by simp
  have r: "baseMerge object source = object"
  proof (rule Cons.IH)
    fix k' v' assume "(k', v') \<in> set source"
    then show "map_of object k' = Some v'" using Cons.prems(1) by simp
  next
    fix k' s assume "(k', JObj s) \<in> set source"
    then show "baseMerge s s = s" using Cons.prems(2) [of k' s] by simp
  qed
  show ?case
  proof (cases v)
    case (JObj s)
    have "baseMerge s s = s" using Cons.prems(2) [of k s] a JObj by simp
    with l r a JObj show ?thesis by (simp add: baseAssignValue_same)
  qed (use l r a in \<open>simp_all add: baseAssignValue_same\<close>)
qed

lemma baseMerge_self:
  "wellFormed v \<Longrightarrow> v = JObj r \<Longrightarrow> baseMerge r r = r"
proof (induction v arbitrary: r)
  case (JObj x)
  then have d: "distinct (map fst r)" and xr: "x = r" by auto
  show ?case
  proof (rule baseMerge_subsumed)
    fix k v assume "(k, v) \<in> set r"
    with d show "map_of r k = Some v" by simp
  next
    fix k s assume m: "(k, JObj s) \<in> set r"
    then have "wellFormed (JObj s)" using JObj.prems xr by force
    with m xr show "baseMerge s s = s"
      using JObj.IH [of "(k, JObj s)" "JObj s" s] by simp
  qed
qed simp_all

text \<open>
  The service configuration is the default record with the \<open>config\<close> section of the
  root the chain chose merged over it; the chain records that root as the name of the
  service logger.
\<close>

lemma serviceConfig_resolveConfig:
  "serviceConfig (resolveConfig store) =
     mergeFrom store [serviceLogger (resolveConfig store), ''config''] defaultServiceConfig"
  by (simp add: resolveConfig_def useRoot_def)

text \<open>
  Claim C7. For every override mapping, deep-merging it over a default record preserves
  every default key path the override does not specify: the merged record reads there what
  the defaults read. So does configuration resolution: when the \<open>config\<close> section of the
  chosen root is the override mapping, the resolved service configuration reads at every
  such path what \<open>defaultServiceConfig\<close> reads, and without a \<open>config\<close> section it is
  \<open>defaultServiceConfig\<close>. In particular, for the store that holds only
  \<open>mfuses.config.namespace = "orders"\<close>, the resolved service configuration has
  namespace "orders", transporter "TCP" and registry strategy "Random".
\<close>

theorem merge_keeps_unspecified_defaults:
  "(wellFormed (JObj override) \<and> getImpl defaults path = Some v \<and> \<not> specifies override path
      \<longrightarrow> getImpl (mergeWith defaults (JObj override)) path = Some v) \<and>
   (serviceLogger (resolveConfig store) = root \<and>
    getImpl store [root, ''config''] = Some (JObj override) \<and>
    wellFormed (JObj override) \<and> getImpl defaultServiceConfig path = Some v \<and>
    \<not> specifies override path
      \<longrightarrow> getImpl (serviceConfig (resolveConfig store)) path = Some v) \<and>
   (serviceLogger (resolveConfig store) = root \<and> getImpl store [root, ''config''] = None
      \<longrightarrow> serviceConfig (resolveConfig store) = defaultServiceConfig) \<and>
   serviceConfig
     (resolveConfig [(''mfuses'', JObj [(''config'', JObj [(''namespace'', JStr ''orders'')])])]) =
     [(''namespace'', JStr ''orders''),
      (''transporter'', JStr ''TCP''),
      (''registry'', JObj [(''strategy'', JStr ''Random'')])]"
proof (intro conjI)
  show "wellFormed (JObj override) \<and> getImpl defaults path = Some v \<and> \<not> specifies override path
      \<longrightarrow> getImpl (mergeWith defaults (JObj override)) path = Some v"
    by (simp add: baseMerge_preserves)
next
  show "serviceLogger (resolveConfig store) = root \<and>
    getImpl store [root, ''config''] = Some (JObj override) \<and>
    wellFormed (JObj override) \<and> getImpl defaultServiceConfig path = Some v \<and>
    \<not> specifies override path
      \<longrightarrow> getImpl (serviceConfig (resolveConfig store)) path = Some v"
  proof (intro impI, elim conjE)
    assume root: "serviceLogger (resolveConfig store) = root"
      and sec: "getImpl store [root, ''config''] = Some (JObj override)"
      and wf: "wellFormed (JObj override)"
      and dv: "getImpl defaultServiceConfig path = Some v"
      and ns: "\<not> specifies override path"
    have "serviceConfig (resolveConfig store) = baseMerge defaultServiceConfig override"
      using serviceConfig_resolveConfig [of store] root sec by (simp add: mergeFrom_def)
    then show "getImpl (serviceConfig (resolveConfig store)) path = Some v"
      using baseMerge_preserves [OF wf dv ns] by simp
  qed
next
  show "serviceLogger (resolveConfig store) = root \<and> getImpl store [root, ''config''] = None
      \<longrightarrow> serviceConfig (resolveConfig store) = defaultServiceConfig"
    using serviceConfig_resolveConfig [of store] by (auto simp: mergeFrom_def)
next
  show "serviceConfig
     (resolveConfig [(''mfuses'', JObj [(''config'', JObj [(''namespace'', JStr ''orders'')])])]) =
     [(''namespace'', JStr ''orders''),
      (''transporter'', JStr ''TCP''),
      (''registry'', JObj [(''strategy'', JStr ''Random'')])]"
    by (simp add: resolveConfig_def has_def useRoot_def mergeFrom_def defaultServiceConfig_def)
qed

text \<open>
  The witness: the store whose \<open>mfuses.config\<close> is \<open>{registry: {preferLocal: false}}\<close>.
  The override reaches into the default \<open>registry\<close> mapping without naming
  \<open>strategy\<close>, and the resolved service configuration still reads
  \<open>registry.strategy = "Random"\<close>, next to the new \<open>registry.preferLocal\<close>.
\<close>

theorem merge_keeps_unspecified_defaults_witness:
  "serviceLogger (resolveConfig
      [(''mfuses'', JObj [(''config'', JObj [(''registry'', JObj [(''preferLocal'', JBool False)])])])])
     = ''mfuses'' \<and>
   getImpl
      [(''mfuses'', JObj [(''config'', JObj [(''registry'', JObj [(''preferLocal'', JBool False)])])])]
      [''mfuses'', ''config'']
     = Some (JObj [(''registry'', JObj [(''preferLocal'', JBool False)])]) \<and>
   wellFormed (JObj [(''registry'', JObj [(''preferLocal'', JBool False)])]) \<and>
   getImpl defaultServiceConfig [''registry'', ''strategy''] = Some (JStr ''Random'') \<and>
   \<not> specifies [(''registry'', JObj [(''preferLocal'', JBool False)])] [''registry'', ''strategy''] \<and>
   getImpl (mergeWith defaultServiceConfig (JObj [(''registry'', JObj [(''preferLocal'', JBool False)])]))
     [''registry'', ''strategy''] = Some (JStr ''Random'') \<and>
   getImpl (serviceConfig (resolveConfig
      [(''mfuses'', JObj [(''config'', JObj [(''registry'', JObj [(''preferLocal'', JBool False)])])])]))
     [''registry'', ''strategy''] = Some (JStr ''Random'') \<and>
   serviceConfig (resolveConfig
      [(''mfuses'', JObj [(''config'', JObj [(''registry'', JObj [(''preferLocal'', JBool False)])])])])
     = [(''namespace'', JStr ''MFuSes-default''),
        (''transporter'', JStr ''TCP''),
        (''registry'', JObj [(''strategy'', JStr ''Random''), (''preferLocal'', JBool False)])]"
  using merge_keeps_unspecified_defaults
    [of "[(''registry'', JObj [(''preferLocal'', JBool False)])]" defaultServiceConfig
        "[''registry'', ''strategy'']" "JStr ''Random''"
        "[(''mfuses'', JObj [(''config'', JObj [(''registry'', JObj [(''preferLocal'', JBool False)])])])]"
        "''mfuses''"]
  by (simp add: resolveConfig_def has_def useRoot_def mergeFrom_def defaultServiceConfig_def)

text \<open>
  Claim C8. The deep merge is idempotent: merging a record over itself yields the same
  record.
\<close>

theorem deep_merge_idempotent:
  "wellFormed (JObj cfg) \<Longrightarrow> mergeWith cfg (JObj cfg) = cfg"
  using baseMerge_self [of "JObj cfg" cfg] by simp

theorem deep_merge_idempotent_witness:
  "wellFormed (JObj defaultServiceConfig) \<and>
   mergeWith defaultServiceConfig (JObj defaultServiceConfig) = defaultServiceConfig"
proof -
  have w: "wellFormed (JObj defaultServiceConfig)"
    by (simp add: defaultServiceConfig_def)
  from w deep_merge_idempotent [OF w] show ?thesis by simp
qed

section \<open>Properties of module initialisation\<close>

lemmas init_defs =
  loadModule_def resolveConfig_def has_def useRoot_def webApiEnabled_def enabled_def
  resolveWebApiSettings_def mergeFrom_def createApiService_def Let_def
  defaultServiceConfig_def defaultWebApiSettings_def defaultLoggerSettings_def

text \<open>
  With the \<open>mfuses\<close> root present, the service configuration and the logger settings
  are read from it alone, and nothing is warned about.
\<close>

lemma mfuses_root_chosen:
  "has store [''mfuses''] \<Longrightarrow> resolveConfig store = useRoot ''mfuses'' store []"
  by (simp add: resolveConfig_def)

text \<open>The alias chain warns exactly when the \<open>mfuses\<close> root is absent.\<close>

lemma warned_iff_no_mfuses:
  "warned (resolveConfig store) = [] \<longleftrightarrow> has store [''mfuses'']"
  by (simp add: resolveConfig_def useRoot_def)

text \<open>
  Claim C1, evaluated on the code. The store holds all three alias roots. The service
  configuration comes from \<open>mfuses\<close>, but the gateway is attached, on port 9000,
  because \<open>usMoleculer.enableWebApi\<close> and \<open>usMoleculer.webApiSettings\<close> say so; with
  an empty \<open>usMoleculer\<close> root and the same \<open>mfuses\<close> root no gateway is attached.
\<close>

theorem gateway_read_from_deprecated_root:
  "has [(''mfuses'', JObj []),
        (''usMoleculer'', JObj [(''enableWebApi'', JBool True),
                                (''webApiSettings'', JObj [(''port'', JNum 9000)])]),
        (''mol-service'', JObj [])] [''mfuses''] \<and>
   brokerServices (mfusesBroker (loadModule
       [(''mfuses'', JObj []),
        (''usMoleculer'', JObj [(''enableWebApi'', JBool True),
                                (''webApiSettings'', JObj [(''port'', JNum 9000)])]),
        (''mol-service'', JObj [])] Loaded))
     = [[(''port'', JNum 9000), (''path'', JStr ''/srvapi'')]] \<and>
   brokerServices (mfusesBroker (loadModule
       [(''mfuses'', JObj []), (''usMoleculer'', JObj []), (''mol-service'', JObj [])] Loaded))
     = []"
  by (simp add: init_defs)

text \<open>
  Claim C2, evaluated on the code. The store holds only the \<open>mfuses\<close> root, with
  \<open>enableWebApi\<close> true and a port of 8000: no gateway service is created.
\<close>

theorem mfuses_enableWebApi_not_read:
  "brokerServices (mfusesBroker (loadModule
       [(''mfuses'', JObj [(''enableWebApi'', JBool True),
                           (''webApiSettings'', JObj [(''port'', JNum 8000)])])] Loaded))
     = []"
  by (simp add: init_defs)

text \<open>
  Claim C3, evaluated on the code. On the empty store, which holds no alias root, the
  module logs the deprecation warning for \<open>mol-service\<close>.
\<close>

theorem no_alias_root_still_warns:
  "logged (loadModule [] req) =
     [LogWarn molServiceWarning, LogTrace ''Configuring moleculer service'']"
  by (simp add: init_defs)

section \<open>Properties of the call facade\<close>


lemma getProp_setProp_same:
  "b < length h \<Longrightarrow> getProp (setProp h (VRef b) k x) (VRef b) k = x"
  by (simp add: getProp_def setProp_def map_of_baseAssignValue)

text \<open>The components of what \<open>call\<close> does, one by one.\<close>

lemma call_result:
  "callResult (call isStream brokerCall m actionName callParams callOptions h) =
     brokerCall (mfusesBroker m) actionName
       (passedParams (call isStream brokerCall m actionName callParams callOptions h))
       (passedOptions (call isStream brokerCall m actionName callParams callOptions h))
       (heapAfter (call isStream brokerCall m actionName callParams callOptions h))"
  by (simp add: call_def Let_def split: prod.splits)

lemma call_log:
  "callLog (call isStream brokerCall m actionName callParams callOptions h) =
     LogTrace ''call'' #
     (case callResult (call isStream brokerCall m actionName callParams callOptions h) of
        Inr (Rejected e) \<Rightarrow> [LogError e (''Error calling '' @ actionName)]
      | _ \<Rightarrow> [])"
  by (simp add: call_def Let_def split: prod.splits)






text \<open>
  Claim C5, as stated, at a call primitive that fails by throwing: \<open>call\<close> returns no
  future that rejects with the error, and no error entry is logged; the exception leaves
  \<open>call\<close> with only the trace entry written.
\<close>

theorem failed_call_throw_counterexample:
  "throwingCall (mfusesBroker (loadModule [] Loaded)) ''users.get'' (VRef 0) (VRef 1) [[], []]
     = Inl ''boom'' \<and>
   callResult (call noStream throwingCall (loadModule [] Loaded) ''users.get''
      VUndefined VUndefined []) \<noteq> Inr (Rejected ''boom'') \<and>
   LogError ''boom'' ''Error calling users.get'' \<notin>
     set (callLog (call noStream throwingCall (loadModule [] Loaded) ''users.get''
       VUndefined VUndefined [])) \<and>
   callResult (call noStream throwingCall (loadModule [] Loaded) ''users.get''
      VUndefined VUndefined []) = Inl ''boom'' \<and>
   callLog (call noStream throwingCall (loadModule [] Loaded) ''users.get''
      VUndefined VUndefined []) = [LogTrace ''call'']"
  by (simp add: call_def objectAssign_def ownProperties_def noStream_def throwingCall_def Let_def)

text \<open>
  Claim C5, amended. A failure of the broker's call is never swallowed by \<open>call\<close>.
  When the promise the primitive returns rejects with an error, \<open>call\<close> returns that
  same rejected promise, and the log holds an error entry with the error and the action
  name. When the primitive throws, \<open>call\<close> throws the same error, and the log holds the
  trace entry only.
\<close>

theorem failed_call_reaches_caller:
  assumes "r = call isStream brokerCall m actionName callParams callOptions h"
  shows
    "(brokerCall (mfusesBroker m) actionName (passedParams r) (passedOptions r) (heapAfter r)
        = Inr (Rejected e) \<longrightarrow>
      callResult r = Inr (Rejected e) \<and>
      callLog r = [LogTrace ''call'', LogError e (''Error calling '' @ actionName)]) \<and>
     (brokerCall (mfusesBroker m) actionName (passedParams r) (passedOptions r) (heapAfter r)
        = Inl e \<longrightarrow>
      callResult r = Inl e \<and> callLog r = [LogTrace ''call''])"
  using assms by (simp add: call_result call_log)

theorem failed_call_reaches_caller_witness:
  "callResult (call (\<lambda>h v. False) (\<lambda>b a p os h. Inr (Rejected ''timeout'')) (loadModule [] Loaded)
       ''users.get'' VUndefined VUndefined []) = Inr (Rejected ''timeout'') \<and>
   callLog (call (\<lambda>h v. False) (\<lambda>b a p os h. Inr (Rejected ''timeout'')) (loadModule [] Loaded)
       ''users.get'' VUndefined VUndefined []) =
     [LogTrace ''call'', LogError ''timeout'' ''Error calling users.get''] \<and>
   callResult (call (\<lambda>h v. False) (\<lambda>b a p os h. Inl ''timeout'') (loadModule [] Loaded)
       ''users.get'' VUndefined VUndefined []) = Inl ''timeout'' \<and>
   callLog (call (\<lambda>h v. False) (\<lambda>b a p os h. Inl ''timeout'') (loadModule [] Loaded)
       ''users.get'' VUndefined VUndefined []) = [LogTrace ''call'']"
  using
    failed_call_reaches_caller
      [OF refl, of "\<lambda>b a p os h. Inr (Rejected ''timeout'')" "loadModule [] Loaded" "''users.get''"
          "\<lambda>h v. False" VUndefined VUndefined "[]" "''timeout''"]
    failed_call_reaches_caller
      [OF refl, of "\<lambda>b a p os h. Inl ''timeout''" "loadModule [] Loaded" "''users.get''"
          "\<lambda>h v. False" VUndefined VUndefined "[]" "''timeout''"]
  by simp

text \<open>
  Claim C9. \<open>emit\<close> and \<open>broadcast\<close> pass the call through to the broker primitive
  and handle nothing: an exception of the primitive is the exception of the facade
  function, and the only log entry is the trace entry written before the call.
\<close>

theorem emit_broadcast_pass_through:
  "(brokerEmit (mfusesBroker m) eventName payload groups = Inl e \<longrightarrow>
      emit brokerEmit m eventName payload groups = (Inl e, [LogTrace ''emit''])) \<and>
   (brokerEmit (mfusesBroker m) eventName payload groups = Inr v \<longrightarrow>
      emit brokerEmit m eventName payload groups = (Inr (), [LogTrace ''emit''])) \<and>
   (brokerBroadcast (mfusesBroker m) eventName payload groups = Inl e \<longrightarrow>
      broadcast brokerBroadcast m eventName payload groups = (Inl e, [LogTrace ''broadcast''])) \<and>
   (brokerBroadcast (mfusesBroker m) eventName payload groups = Inr v \<longrightarrow>
      broadcast brokerBroadcast m eventName payload groups = (Inr (), [LogTrace ''broadcast'']))"
  by (simp add: emit_def broadcast_def)

theorem emit_broadcast_pass_through_witness:
  "emit (\<lambda>b ev p g. Inl ''no transport'') (loadModule [] Loaded) ''user.created'' VNull VUndefined
     = (Inl ''no transport'', [LogTrace ''emit'']) \<and>
   broadcast (\<lambda>b ev p g. Inl ''no transport'') (loadModule [] Loaded) ''user.created'' VNull VUndefined
     = (Inl ''no transport'', [LogTrace ''broadcast''])"
  using emit_broadcast_pass_through
    [of "\<lambda>b ev p g. Inl ''no transport''" "loadModule [] Loaded" "''user.created''" VNull VUndefined
        "''no transport''" VNull "\<lambda>b ev p g. Inl ''no transport''"]
  by simp

text \<open>
  Claim C10. The copy \<open>call\<close> makes of a non-stream \<open>callParams\<close> object is shallow:
  a property of the original that holds a reference holds the same reference in the copy,
  so a write to that nested object through the copy is read back through the original.
\<close>

theorem call_copy_shares_nested:
  assumes "\<not> isStream h callParams" and "callParams = VRef a" and "a < length h"
    and "map_of (h ! a) key = Some (VRef b)" and "b < length h"
  shows "let r = call isStream brokerCall m actionName callParams callOptions h;
             copy = passedParams r; h' = heapAfter r
         in copy \<noteq> callParams \<and>
            getProp h' copy key = VRef b \<and> getProp h' callParams key = VRef b \<and>
            (\<forall>k x. getProp (setProp h' (getProp h' copy key) k x) (getProp h' callParams key) k = x) \<and>
            (b \<noteq> a \<longrightarrow>
               (\<forall>k x. let h'' = setProp h' (getProp h' copy key) k x
                      in getProp h'' (getProp h'' callParams key) k = x))"
proof -
  let ?h2 = "(h @ [h ! a]) @ [ownProperties (h @ [h ! a]) callOptions]"
  let ?res = "brokerCall (mfusesBroker m) actionName (VRef (length h)) (VRef (Suc (length h))) ?h2"
  have r: "call isStream brokerCall m actionName callParams callOptions h =
      \<lparr> passedParams = VRef (length h), passedOptions = VRef (Suc (length h)),
        heapAfter = ?h2, callResult = ?res,
        callLog = LogTrace ''call'' #
          (case ?res of Inr (Rejected e) \<Rightarrow> [LogError e (''Error calling '' @ actionName)]
           | _ \<Rightarrow> []) \<rparr>"
    using assms(1-3) by (simp add: call_def objectAssign_def Let_def ownProperties_def)
  have c: "getProp ?h2 (VRef (length h)) key = VRef b"
    using assms(4) by (simp add: getProp_def nth_append)
  have o: "getProp ?h2 (VRef a) key = VRef b"
    using assms(3,4) by (simp add: getProp_def nth_append)
  have lb: "b < length ?h2" using assms(5) by simp
  have s: "\<And>k x. getProp (setProp ?h2 (VRef b) k x) (VRef b) k = x"
    using lb by (rule getProp_setProp_same)
  have t: "\<And>k x. b \<noteq> a \<Longrightarrow> getProp (setProp ?h2 (VRef b) k x) (VRef a) key = VRef b"
    using assms(3,4,5) by (simp add: getProp_def setProp_def nth_append)
  show ?thesis
    unfolding r Let_def using assms(2,3) c o s t by simp
qed

text \<open>
  The witness: \<open>{user: u}\<close> at address 0 with \<open>u = {name: "a"}\<close> at address 1. The
  copy is at address 2 and holds the same \<open>u\<close>; after \<open>copy.user.name = "b"\<close> the
  original reads \<open>original.user.name = "b"\<close>.
\<close>

theorem call_copy_shares_nested_witness:
  "map_of ([[(''user'', VRef 1)], [(''name'', VStr ''a'')]] ! 0) ''user'' = Some (VRef 1) \<and>
   passedParams (call (\<lambda>h v. False) (\<lambda>b a p os h. Inr Pending) (loadModule [] Loaded)
       ''users.get'' (VRef 0) VUndefined [[(''user'', VRef 1)], [(''name'', VStr ''a'')]]) = VRef 2 \<and>
   getProp
     (setProp
        (heapAfter (call (\<lambda>h v. False) (\<lambda>b a p os h. Inr Pending) (loadModule [] Loaded)
           ''users.get'' (VRef 0) VUndefined [[(''user'', VRef 1)], [(''name'', VStr ''a'')]]))
        (getProp
           (heapAfter (call (\<lambda>h v. False) (\<lambda>b a p os h. Inr Pending) (loadModule [] Loaded)
              ''users.get'' (VRef 0) VUndefined [[(''user'', VRef 1)], [(''name'', VStr ''a'')]]))
           (VRef 2) ''user'')
        ''name'' (VStr ''b''))
     (VRef 1) ''name'' = VStr ''b''"
  using call_copy_shares_nested
    [of "\<lambda>h v. False" "[[(''user'', VRef 1)], [(''name'', VStr ''a'')]]" "VRef 0" 0 "''user''" 1
        "\<lambda>b a p os h. Inr Pending" "loadModule [] Loaded" "''users.get''" VUndefined]
  by (simp add: call_def objectAssign_def ownProperties_def Let_def getProp_def setProp_def)

text \<open>
  Claim C6. When the gateway is enabled and loading its module fails, the failure is
  caught: the module finishes loading, the broker is started and carries no gateway
  service, the last log entry is the error with the advice to add the dependency, and
  \<open>call\<close>, \<open>emit\<close> and \<open>broadcast\<close> delegate to the primitives of that broker.
\<close>

theorem gateway_load_failure_contained:
  assumes "webApiEnabled store"
  shows "let m = loadModule store (LoadFailed e); b = mfusesBroker m in
           brokerStarted b \<and> brokerServices b = [] \<and>
           brokerOptions b = serviceConfig (resolveConfig store) \<and>
           logged m = warned (resolveConfig store) @
             [LogTrace ''Configuring moleculer service'', LogError e webModuleFailure] \<and>
           callResult (call isStream brokerCall m actionName callParams callOptions h) =
             brokerCall b actionName
               (passedParams (call isStream brokerCall m actionName callParams callOptions h))
               (passedOptions (call isStream brokerCall m actionName callParams callOptions h))
               (heapAfter (call isStream brokerCall m actionName callParams callOptions h)) \<and>
           fst (emit brokerEmit m eventName payload groups) =
             map_sum id (\<lambda>_. ()) (brokerEmit b eventName payload groups) \<and>
           fst (broadcast brokerBroadcast m eventName payload groups) =
             map_sum id (\<lambda>_. ()) (brokerBroadcast b eventName payload groups)"
  using assms
  by (simp add: loadModule_def createApiService_def Let_def call_result emit_def broadcast_def
        split: sum.splits)

theorem gateway_load_failure_contained_witness:
  "webApiEnabled [(''usMoleculer'', JObj [(''enableWebApi'', JBool True)])] \<and>
   brokerStarted (mfusesBroker (loadModule
       [(''usMoleculer'', JObj [(''enableWebApi'', JBool True)])] (LoadFailed ''MODULE_NOT_FOUND''))) \<and>
   brokerServices (mfusesBroker (loadModule
       [(''usMoleculer'', JObj [(''enableWebApi'', JBool True)])] (LoadFailed ''MODULE_NOT_FOUND''))) = [] \<and>
   logged (loadModule
       [(''usMoleculer'', JObj [(''enableWebApi'', JBool True)])] (LoadFailed ''MODULE_NOT_FOUND'')) =
     [LogWarn usMoleculerWarning, LogTrace ''Configuring moleculer service'',
      LogError ''MODULE_NOT_FOUND'' webModuleFailure]"
proof -
  have w: "webApiEnabled [(''usMoleculer'', JObj [(''enableWebApi'', JBool True)])]"
    by (simp add: webApiEnabled_def enabled_def)
  from w gateway_load_failure_contained [OF w, of "''MODULE_NOT_FOUND''"]
  show ?thesis
    by (simp add: Let_def resolveConfig_def has_def useRoot_def)
qed

end
